theory Spec2Isabelle
  imports Complex_Main "HOL-Library.AList"
begin

unbundle bit_operations_syntax

section \<open>Python values and exceptions\<close>

text \<open>
  acertmgr (\<^verbatim>\<open>src/acertmgr/configuration.py\<close>, \<^verbatim>\<open>src/acertmgr/__init__.py\<close>) carries its
  configuration in dictionaries whose values are whatever \<^verbatim>\<open>json.load\<close> or
  \<^verbatim>\<open>yaml.safe_load\<close> produced. The embedding keeps that: a value is a \<open>pyval\<close>, a
  dictionary an association list in insertion order with string keys.

  A Python \<^verbatim>\<open>str\<close> is modelled by the bytes of its UTF-8 encoding (an Isabelle \<open>string\<close>,
  one \<open>char\<close> per byte). Every string operation the program uses (\<^verbatim>\<open>split(' ')\<close>,
  \<^verbatim>\<open>join\<close>, \<^verbatim>\<open>startswith('*.')\<close>, \<^verbatim>\<open>[2:]\<close> after that test, substring search for an
  ASCII needle, \<^verbatim>\<open>ord(c) >= 128\<close> for some character, comparison) gives the same answer on
  the code points and on the UTF-8 bytes, and \<^verbatim>\<open>.encode('utf-8')\<close> is then the identity.
\<close>

datatype pyfloat = Finite rat | Infinite | NaN

datatype pyval =
    PNone
  | PBool bool
  | PInt int
  | PFloat pyfloat
  | PStr string
  | PList "pyval list"
  | PDict "(string \<times> pyval) list"

type_synonym pydict = "(string \<times> pyval) list"

text \<open>
  The exceptions the modelled code can raise. \<open>MissingCAFile\<close> is the
  \<^verbatim>\<open>FileNotFoundError("The CA certificate file (%s) is missing!")\<close> of \<^verbatim>\<open>cert_put\<close>;
  \<open>FileNotFoundError\<close> the one \<^verbatim>\<open>io.open\<close> raises for a path that does not exist.
\<close>

datatype pyerror =
    KeyError string
  | TypeError
  | AttributeError
  | ValueError
  | OverflowError
  | IDNAError
  | JSONDecodeError
  | YAMLError
  | FileNotFoundError string
  | FileExistsError string
  | IsADirectoryError string
  | MissingCAFile pyval
  | OSError

text \<open>
  What \<^verbatim>\<open>except ValueError\<close> catches: \<^verbatim>\<open>json.JSONDecodeError\<close> and \<^verbatim>\<open>idna.IDNAError\<close>
  (a \<^verbatim>\<open>UnicodeError\<close>) are subclasses of \<^verbatim>\<open>ValueError\<close>.
\<close>

fun is_ValueError :: "pyerror \<Rightarrow> bool" where
  "is_ValueError ValueError = True"
| "is_ValueError IDNAError = True"
| "is_ValueError JSONDecodeError = True"
| "is_ValueError _ = False"

text \<open>Sequencing of computations that may raise: the first exception wins.\<close>

definition bindE :: "'e + 'a \<Rightarrow> ('a \<Rightarrow> 'e + 'b) \<Rightarrow> 'e + 'b" where
  "bindE m f = (case m of Inl e \<Rightarrow> Inl e | Inr v \<Rightarrow> f v)"

subsection \<open>Dictionaries\<close>

definition dict_get :: "pydict \<Rightarrow> string \<Rightarrow> pyval option" where
  "dict_get d k = map_of d k"

text \<open>\<^verbatim>\<open>name in d\<close>\<close>

definition dict_contains :: "pydict \<Rightarrow> string \<Rightarrow> bool" where
  "dict_contains d k = (map_of d k \<noteq> None)"

text \<open>\<^verbatim>\<open>d[name]\<close>\<close>

definition dict_getitem :: "pydict \<Rightarrow> string \<Rightarrow> pyerror + pyval" where
  "dict_getitem d k = (case map_of d k of None \<Rightarrow> Inl (KeyError k) | Some v \<Rightarrow> Inr v)"

text \<open>\<^verbatim>\<open>d.get(name, default)\<close>\<close>

definition dict_get_default :: "pydict \<Rightarrow> string \<Rightarrow> pyval \<Rightarrow> pyval" where
  "dict_get_default d k dflt = (case map_of d k of None \<Rightarrow> dflt | Some v \<Rightarrow> v)"

text \<open>\<^verbatim>\<open>d[name] = value\<close>: an existing key keeps its position, a new one is appended.\<close>

definition dict_set :: "pydict \<Rightarrow> string \<Rightarrow> pyval \<Rightarrow> pydict" where
  "dict_set d k v = AList.update k v d"

text \<open>\<^verbatim>\<open>d.update(other)\<close>\<close>

definition dict_update :: "pydict \<Rightarrow> pydict \<Rightarrow> pydict" where
  "dict_update d other = fold (\<lambda>kv acc. dict_set acc (fst kv) (snd kv)) other d"

text \<open>\<^verbatim>\<open>x[name]\<close> for a string \<open>name\<close> and any value \<open>x\<close>.\<close>

fun py_getitem :: "pyval \<Rightarrow> string \<Rightarrow> pyerror + pyval" where
  "py_getitem (PDict d) k = dict_getitem d k"
| "py_getitem _ k = Inl TypeError"

subsection \<open>Strings\<close>

text \<open>\<^verbatim>\<open>s.split(sep)\<close> for a separator of one character.\<close>

fun py_split :: "char \<Rightarrow> string \<Rightarrow> string list" where
  "py_split sep [] = [[]]"
| "py_split sep (c # cs) =
     (if c = sep then [] # py_split sep cs
      else (case py_split sep cs of [] \<Rightarrow> [[c]] | w # ws \<Rightarrow> (c # w) # ws))"

text \<open>\<^verbatim>\<open>sep.join(xs)\<close>\<close>

fun py_join :: "string \<Rightarrow> string list \<Rightarrow> string" where
  "py_join sep [] = []"
| "py_join sep [x] = x"
| "py_join sep (x # y # ys) = x @ sep @ py_join sep (y # ys)"

text \<open>\<^verbatim>\<open>any(ord(c) >= 128 for c in s)\<close>\<close>

definition non_ascii :: "string \<Rightarrow> bool" where
  "non_ascii s = list_ex (\<lambda>c. 128 \<le> (of_char c :: nat)) s"

text \<open>
  \<^verbatim>\<open>str.strip(x)\<close> removes the code points Python counts as whitespace from both ends:
  U+0009..U+000D, U+001C..U+0020, U+0085, U+00A0, U+1680, U+2000..U+200A, U+2028, U+2029,
  U+202F, U+205F and U+3000. On UTF-8 bytes these are the one-byte, two-byte and
  three-byte sequences below.
\<close>

definition ws1 :: "char \<Rightarrow> bool" where
  "ws1 a = (let n = (of_char a :: nat) in (9 \<le> n \<and> n \<le> 13) \<or> (28 \<le> n \<and> n \<le> 32))"

definition ws2 :: "char \<Rightarrow> char \<Rightarrow> bool" where
  "ws2 a b = (a = CHR 0xC2 \<and> (b = CHR 0x85 \<or> b = CHR 0xA0))"

definition ws3 :: "char \<Rightarrow> char \<Rightarrow> char \<Rightarrow> bool" where
  "ws3 a b c =
     (let n = (of_char c :: nat) in
        (a = CHR 0xE1 \<and> b = CHR 0x9A \<and> c = CHR 0x80) \<or>
        (a = CHR 0xE2 \<and> b = CHR 0x80 \<and> ((128 \<le> n \<and> n \<le> 138) \<or> n = 168 \<or> n = 169 \<or> n = 175)) \<or>
        (a = CHR 0xE2 \<and> b = CHR 0x81 \<and> c = CHR 0x9F) \<or>
        (a = CHR 0xE3 \<and> b = CHR 0x80 \<and> c = CHR 0x80))"

fun lstrip :: "string \<Rightarrow> string" where
  "lstrip (a # b # c # s) =
     (if ws1 a then lstrip (b # c # s)
      else if ws2 a b then lstrip (c # s)
      else if ws3 a b c then lstrip s
      else a # b # c # s)"
| "lstrip [a, b] = (if ws1 a then lstrip [b] else if ws2 a b then [] else [a, b])"
| "lstrip [a] = (if ws1 a then [] else [a])"
| "lstrip [] = []"

text \<open>The same from the right end, on the reversed string.\<close>

fun rstrip_rev :: "string \<Rightarrow> string" where
  "rstrip_rev (a # b # c # s) =
     (if ws1 a then rstrip_rev (b # c # s)
      else if ws2 b a then rstrip_rev (c # s)
      else if ws3 c b a then rstrip_rev s
      else a # b # c # s)"
| "rstrip_rev [a, b] = (if ws1 a then rstrip_rev [b] else if ws2 b a then [] else [a, b])"
| "rstrip_rev [a] = (if ws1 a then [] else [a])"
| "rstrip_rev [] = []"

definition py_strip :: "string \<Rightarrow> string" where
  "py_strip s = rev (rstrip_rev (rev (lstrip s)))"

text \<open>\<^verbatim>\<open>needle in s\<close> for two strings.\<close>

fun is_substring :: "string \<Rightarrow> string \<Rightarrow> bool" where
  "is_substring needle [] = (needle = [])"
| "is_substring needle (c # cs) =
     (take (length needle) (c # cs) = needle \<or> is_substring needle cs)"

subsection \<open>Paths\<close>

text \<open>\<^verbatim>\<open>os.path.join(a, b)\<close> of \<^verbatim>\<open>posixpath\<close>, for two strings.\<close>

definition os_path_join :: "string \<Rightarrow> string \<Rightarrow> string" where
  "os_path_join a b =
     (if take 1 b = ''/'' then b
      else if a = [] \<or> last a = CHR ''/'' then a @ b
      else a @ ''/'' @ b)"

text \<open>The first argument comes out of a dictionary and need not be a string.\<close>

fun path_join :: "pyval \<Rightarrow> string \<Rightarrow> pyerror + string" where
  "path_join (PStr a) b = Inr (os_path_join a b)"
| "path_join _ b = Inl TypeError"

text \<open>\<^verbatim>\<open>os.path.dirname(p)\<close> of \<^verbatim>\<open>posixpath\<close>.\<close>

definition os_path_dirname :: "string \<Rightarrow> string" where
  "os_path_dirname p =
     (let head = rev (dropWhile (\<lambda>c. c \<noteq> CHR ''/'') (rev p))
      in if head \<noteq> [] \<and> \<not> list_all (\<lambda>c. c = CHR ''/'') head
         then rev (dropWhile (\<lambda>c. c = CHR ''/'') (rev head)) else head)"

text \<open>\<^verbatim>\<open>s.endswith(suffix)\<close>\<close>

definition endswith :: "string \<Rightarrow> string \<Rightarrow> bool" where
  "endswith s suffix = (take (length suffix) (rev s) = rev suffix)"

section \<open>MD5\<close>

text \<open>
  \<^verbatim>\<open>hashlib.md5(b).hexdigest()\<close>, after RFC 1321, on the bytes of the message. Words of 32
  bits are natural numbers below \<open>2 ^ 32\<close>, with the wrap-around written out.
\<close>

definition md5_K :: "nat list" where
  "md5_K =
    [0xd76aa478, 0xe8c7b756, 0x242070db, 0xc1bdceee,
     0xf57c0faf, 0x4787c62a, 0xa8304613, 0xfd469501,
     0x698098d8, 0x8b44f7af, 0xffff5bb1, 0x895cd7be,
     0x6b901122, 0xfd987193, 0xa679438e, 0x49b40821,
     0xf61e2562, 0xc040b340, 0x265e5a51, 0xe9b6c7aa,
     0xd62f105d, 0x02441453, 0xd8a1e681, 0xe7d3fbc8,
     0x21e1cde6, 0xc33707d6, 0xf4d50d87, 0x455a14ed,
     0xa9e3e905, 0xfcefa3f8, 0x676f02d9, 0x8d2a4c8a,
     0xfffa3942, 0x8771f681, 0x6d9d6122, 0xfde5380c,
     0xa4beea44, 0x4bdecfa9, 0xf6bb4b60, 0xbebfbc70,
     0x289b7ec6, 0xeaa127fa, 0xd4ef3085, 0x04881d05,
     0xd9d4d039, 0xe6db99e5, 0x1fa27cf8, 0xc4ac5665,
     0xf4292244, 0x432aff97, 0xab9423a7, 0xfc93a039,
     0x655b59c3, 0x8f0ccc92, 0xffeff47d, 0x85845dd1,
     0x6fa87e4f, 0xfe2ce6e0, 0xa3014314, 0x4e0811a1,
     0xf7537e82, 0xbd3af235, 0x2ad7d2bb, 0xeb86d391]"

definition md5_s :: "nat list" where
  "md5_s =
    [7, 12, 17, 22, 7, 12, 17, 22, 7, 12, 17, 22, 7, 12, 17, 22,
     5, 9, 14, 20, 5, 9, 14, 20, 5, 9, 14, 20, 5, 9, 14, 20,
     4, 11, 16, 23, 4, 11, 16, 23, 4, 11, 16, 23, 4, 11, 16, 23,
     6, 10, 15, 21, 6, 10, 15, 21, 6, 10, 15, 21, 6, 10, 15, 21]"

type_synonym md5_state = "nat \<times> nat \<times> nat \<times> nat"

definition not32 :: "nat \<Rightarrow> nat" where
  "not32 x = 4294967295 - x mod 4294967296"

definition rotl32 :: "nat \<Rightarrow> nat \<Rightarrow> nat" where
  "rotl32 n x = (x * 2 ^ n) mod 4294967296 + (x mod 4294967296) div 2 ^ (32 - n)"

definition add32 :: "nat \<Rightarrow> nat \<Rightarrow> nat" where
  "add32 x y = (x + y) mod 4294967296"

definition md5_F :: "nat \<Rightarrow> nat \<Rightarrow> nat \<Rightarrow> nat \<Rightarrow> nat" where
  "md5_F i b c d =
     (if i < 16 then (b AND c) OR (not32 b AND d)
      else if i < 32 then (d AND b) OR (not32 d AND c)
      else if i < 48 then b XOR c XOR d
      else c XOR (b OR not32 d))"

definition md5_g :: "nat \<Rightarrow> nat" where
  "md5_g i =
     (if i < 16 then i
      else if i < 32 then (5 * i + 1) mod 16
      else if i < 48 then (3 * i + 5) mod 16
      else (7 * i) mod 16)"

fun md5_round :: "nat list \<Rightarrow> md5_state \<Rightarrow> nat \<Rightarrow> md5_state" where
  "md5_round m (a, b, c, d) i =
     (d, add32 b (rotl32 (md5_s ! i) (add32 (add32 (add32 (md5_F i b c d) a) (md5_K ! i)) (m ! md5_g i))), b, c)"

fun md5_add :: "md5_state \<Rightarrow> md5_state \<Rightarrow> md5_state" where
  "md5_add (a0, b0, c0, d0) (a, b, c, d) = (add32 a0 a, add32 b0 b, add32 c0 c, add32 d0 d)"

text \<open>A little-endian word from its bytes, and back.\<close>

definition le_word :: "char list \<Rightarrow> nat" where
  "le_word bs = foldr (\<lambda>c w. of_char c + 256 * w) bs 0"

fun le_bytes :: "nat \<Rightarrow> nat \<Rightarrow> char list" where
  "le_bytes 0 v = []"
| "le_bytes (Suc n) v = char_of v # le_bytes n (v div 256)"

fun chunks :: "nat \<Rightarrow> 'a list \<Rightarrow> 'a list list" where
  "chunks n [] = []"
| "chunks n (x # xs) = (if n = 0 then [] else take n (x # xs) # chunks n (drop n (x # xs)))"

text \<open>The rounds \<open>i\<close>, \<open>i + 1\<close>, ... of one block, \<open>n\<close> of them.\<close>

fun md5_rounds :: "nat list \<Rightarrow> nat \<Rightarrow> nat \<Rightarrow> md5_state \<Rightarrow> md5_state" where
  "md5_rounds m 0 i st = st"
| "md5_rounds m (Suc n) i st = md5_rounds m n (i + 1) (md5_round m st i)"

definition md5_block :: "md5_state \<Rightarrow> char list \<Rightarrow> md5_state" where
  "md5_block st blk = md5_add st (md5_rounds (map le_word (chunks 4 blk)) 64 0 st)"

definition md5_pad :: "char list \<Rightarrow> char list" where
  "md5_pad msg =
     msg @ [CHR 0x80] @ replicate ((119 - length msg mod 64) mod 64) (CHR 0x00)
         @ le_bytes 8 (8 * length msg mod 2 ^ 64)"

fun md5_digest :: "md5_state \<Rightarrow> char list" where
  "md5_digest (a, b, c, d) = le_bytes 4 a @ le_bytes 4 b @ le_bytes 4 c @ le_bytes 4 d"

definition hex_digit :: "nat \<Rightarrow> char" where
  "hex_digit n = ''0123456789abcdef'' ! (n mod 16)"

definition hex_byte :: "nat \<Rightarrow> string" where
  "hex_byte n = [hex_digit (n div 16), hex_digit n]"

definition md5_hexdigest :: "char list \<Rightarrow> string" where
  "md5_hexdigest msg =
     concat (map (\<lambda>c. hex_byte (of_char c))
       (md5_digest (foldl md5_block (0x67452301, 0xefcdab89, 0x98badcfe, 0x10325476)
          (chunks 64 (md5_pad msg)))))"

section \<open>The file system and the environment\<close>

text \<open>
  A file has a text, a modification time, an owner, a group and permission bits. The world
  holds the regular files by path, the directories by path with what \<^verbatim>\<open>os.listdir\<close>
  returns for them (in that order), and a clock that stamps what is written.
\<close>

record regfile =
  f_content :: string
  f_mtime :: nat
  f_uid :: nat
  f_gid :: nat
  f_mode :: int

record world =
  files :: "(string \<times> regfile) list"
  dirs :: "(string \<times> string list) list"
  clock :: nat

text \<open>
  What the program takes from outside its two source files is a parameter of the model:
  the \<^verbatim>\<open>idna\<close> package (\<open>idna_loaded\<close> is \<^verbatim>\<open>'idna' in sys.modules\<close>), Python's parsing of
  integer literals (\<open>int_of_str base s\<close> is \<^verbatim>\<open>int(s, base)\<close>, \<open>None\<close> for a
  \<^verbatim>\<open>ValueError\<close>), the JSON and YAML parsers applied to a file's text (\<open>json_load\<close> and
  \<open>yaml_safe_load\<close> for the global file, which holds a mapping; \<open>json_items\<close> and
  \<open>yaml_items\<close> for \<^verbatim>\<open>json.load(fd).items()\<close> and \<^verbatim>\<open>yaml.safe_load(fd).items()\<close> of a
  domain file, which maps each domain-group key to its list of override documents),
  \<^verbatim>\<open>os.path.abspath\<close>, the user and group databases, the owner, group and permission bits
  a file created by the process gets, whether the operating system refuses \<^verbatim>\<open>chown\<close> or
  \<^verbatim>\<open>chmod\<close> on a path, the module \<^verbatim>\<open>acertmgr.tools\<close>
  (\<open>read_pem_file\<close>, \<open>is_cert_valid\<close>, \<open>target_is_current\<close>), which is not among the
  sources, and the effect on the files of \<^verbatim>\<open>cert_get\<close>, whose body is the conversation
  with the authority, key and request modules, none of them among the sources.
\<close>

type_synonym entry = "string \<times> pydict list"

record env =
  idna_loaded :: bool
  idna_encode :: "string \<Rightarrow> pyerror + string"
  int_of_str :: "nat \<Rightarrow> string \<Rightarrow> int option"
  json_load :: "string \<Rightarrow> pyerror + pydict"
  yaml_safe_load :: "string \<Rightarrow> pyerror + pydict"
  json_items :: "string \<Rightarrow> pyerror + entry list"
  yaml_items :: "string \<Rightarrow> pyerror + entry list"
  abspath :: "string \<Rightarrow> string"
  getpwnam :: "string \<Rightarrow> nat option"
  getgrnam :: "string \<Rightarrow> nat option"
  process_uid :: nat
  process_gid :: nat
  create_mode :: int
  chown_fails :: "string \<Rightarrow> bool"
  chmod_fails :: "string \<Rightarrow> bool"
  read_pem_file :: "world \<Rightarrow> pyval \<Rightarrow> pyerror + pyval"
  is_cert_valid :: "pyval \<Rightarrow> pyval \<Rightarrow> pyerror + bool"
  target_is_current :: "world \<Rightarrow> pyval \<Rightarrow> pyval \<Rightarrow> pyerror + bool"
  cert_get_effect :: "pyval \<Rightarrow> world \<Rightarrow> pyerror option \<times> world"

text \<open>\<^verbatim>\<open>int(x)\<close>\<close>

fun py_int :: "env \<Rightarrow> pyval \<Rightarrow> pyerror + int" where
  "py_int env (PInt n) = Inr n"
| "py_int env (PBool b) = Inr (if b then 1 else 0)"
| "py_int env (PFloat (Finite r)) = Inr (if 0 \<le> r then \<lfloor>r\<rfloor> else \<lceil>r\<rceil>)"
| "py_int env (PFloat Infinite) = Inl OverflowError"
| "py_int env (PFloat NaN) = Inl ValueError"
| "py_int env (PStr s) = (case int_of_str env 10 s of None \<Rightarrow> Inl ValueError | Some n \<Rightarrow> Inr n)"
| "py_int env _ = Inl TypeError"

text \<open>\<^verbatim>\<open>int(x, 8)\<close>: only a string may come with a base.\<close>

fun py_int8 :: "env \<Rightarrow> pyval \<Rightarrow> pyerror + int" where
  "py_int8 env (PStr s) = (case int_of_str env 8 s of None \<Rightarrow> Inl ValueError | Some n \<Rightarrow> Inr n)"
| "py_int8 env _ = Inl TypeError"

text \<open>
  \<^verbatim>\<open>name in x\<close> for a string \<open>name\<close>: a substring of a string, an element of a list, a key
  of a dictionary.
\<close>

fun py_in :: "string \<Rightarrow> pyval \<Rightarrow> pyerror + bool" where
  "py_in name (PStr s) = Inr (is_substring name s)"
| "py_in name (PList xs) = Inr (PStr name \<in> set xs)"
| "py_in name (PDict d) = Inr (dict_contains d name)"
| "py_in name _ = Inl TypeError"

definition os_path_isfile :: "world \<Rightarrow> string \<Rightarrow> bool" where
  "os_path_isfile w p = (map_of (files w) p \<noteq> None)"

definition os_path_isdir :: "world \<Rightarrow> string \<Rightarrow> bool" where
  "os_path_isdir w p = (map_of (dirs w) p \<noteq> None)"

text \<open>
  \<^verbatim>\<open>os.path.isfile(x)\<close> for a value out of a dictionary. An integer would be a file
  descriptor; the model has none that is a regular file.
\<close>

fun isfile :: "world \<Rightarrow> pyval \<Rightarrow> pyerror + bool" where
  "isfile w (PStr p) = Inr (os_path_isfile w p)"
| "isfile w (PInt n) = Inr False"
| "isfile w (PBool b) = Inr False"
| "isfile w _ = Inl TypeError"

text \<open>\<^verbatim>\<open>io.open(p).read()\<close>; a path with a NUL is a \<^verbatim>\<open>ValueError\<close>.\<close>

definition read_file :: "world \<Rightarrow> string \<Rightarrow> pyerror + string" where
  "read_file w p =
     (if CHR 0x00 \<in> set p then Inl ValueError else
      case map_of (files w) p of
        Some f \<Rightarrow> Inr (f_content f)
      | None \<Rightarrow> if os_path_isdir w p then Inl (IsADirectoryError p) else Inl (FileNotFoundError p))"

text \<open>\<^verbatim>\<open>os.mkdir(p)\<close>: the parent directory must exist, the path must not.\<close>

definition parent_exists :: "world \<Rightarrow> string \<Rightarrow> bool" where
  "parent_exists w p = (os_path_dirname p = [] \<or> os_path_isdir w (os_path_dirname p))"

definition os_mkdir :: "world \<Rightarrow> string \<Rightarrow> pyerror + world" where
  "os_mkdir w p =
     (if os_path_isfile w p \<or> os_path_isdir w p then Inl (FileExistsError p)
      else if \<not> parent_exists w p then Inl (FileNotFoundError p)
      else Inr (w\<lparr>dirs := dirs w @ [(p, [])]\<rparr>))"

section \<open>configuration.py\<close>

definition LEGACY_WORK_DIR :: string where
  "LEGACY_WORK_DIR = ''/etc/acme''"

definition LEGACY_CONF_FILE :: string where
  "LEGACY_CONF_FILE = os_path_join LEGACY_WORK_DIR ''acme.conf''"

definition LEGACY_CONF_DIR :: string where
  "LEGACY_CONF_DIR = os_path_join LEGACY_WORK_DIR ''domains.d''"

definition DEFAULT_CONF_FILE :: string where
  "DEFAULT_CONF_FILE = ''/etc/acertmgr/acertmgr.conf''"

definition DEFAULT_CONF_DIR :: string where
  "DEFAULT_CONF_DIR = ''/etc/acertmgr''"

definition DEFAULT_KEY_LENGTH :: int where
  "DEFAULT_KEY_LENGTH = 4096"

definition DEFAULT_TTL :: int where
  "DEFAULT_TTL = 30"

definition DEFAULT_API :: string where
  "DEFAULT_API = ''v2''"

definition DEFAULT_AUTHORITY :: string where
  "DEFAULT_AUTHORITY = ''https://acme-v02.api.letsencrypt.org''"

definition LEGACY_API :: string where
  "LEGACY_API = ''v1''"

definition LEGACY_AUTHORITY :: string where
  "LEGACY_AUTHORITY = ''https://acme-v01.api.letsencrypt.org''"

definition LEGACY_AUTHORITY_TOS_AGREEMENT :: string where
  "LEGACY_AUTHORITY_TOS_AGREEMENT = ''true''"

text \<open>
  \<^verbatim>\<open>complete_action_config(domainconfig, config)\<close>, lines 43 to 53. The Python changes
  \<open>domainconfig\<close> in place and returns it; the model returns the changed dictionary.
  \<^verbatim>\<open>defaults.items()\<close> needs a dictionary.
\<close>

definition complete_action_config :: "pydict \<Rightarrow> pydict \<Rightarrow> pyerror + pydict" where
  "complete_action_config domainconfig config =
     bindE (dict_getitem config ''defaults'') (\<lambda>defaults.
     bindE (dict_getitem config ''ca_file'') (\<lambda>ca_file.
     bindE (dict_getitem config ''cert_file'') (\<lambda>cert_file.
     bindE (dict_getitem config ''key_file'') (\<lambda>key_file.
       (case defaults of
          PDict items \<Rightarrow>
            Inr (let d = fold (\<lambda>kv d. if dict_contains d (fst kv) then d else dict_set d (fst kv) (snd kv))
                           items
                           (dict_set (dict_set (dict_set domainconfig ''ca_file'' ca_file)
                              ''cert_file'' cert_file) ''key_file'' key_file)
                 in if dict_contains d ''action'' then d else dict_set d ''action'' PNone)
        | _ \<Rightarrow> Inl AttributeError)))))"

text \<open>
  \<^verbatim>\<open>update_config_value(config, name, localconfig, globalconfig, default)\<close>, lines 57 to
  62; returns the changed \<open>config\<close>.
\<close>

definition update_config_value ::
  "pydict \<Rightarrow> string \<Rightarrow> pydict list \<Rightarrow> pydict \<Rightarrow> pyval \<Rightarrow> pyerror + pydict" where
  "update_config_value config name localconfig globalconfig dflt =
     (case filter (\<lambda>x. dict_contains x name) localconfig of
        [] \<Rightarrow> Inr (dict_set config name (dict_get_default globalconfig name dflt))
      | x # _ \<Rightarrow> bindE (dict_getitem x name) (\<lambda>v. Inr (dict_set config name v)))"

text \<open>
  \<^verbatim>\<open>idna_convert(domainlist)\<close>, lines 66 to 81: \<open>idna_translate\<close> is its \<^verbatim>\<open>for\<close> loop,
  with the dictionary \<^verbatim>\<open>domaintranslation\<close> (ASCII form to original) as accumulator.
\<close>

fun idna_translate ::
  "env \<Rightarrow> string list \<Rightarrow> (string \<times> string) list \<Rightarrow> pyerror + (string \<times> string) list" where
  "idna_translate env [] domaintranslation = Inr domaintranslation"
| "idna_translate env (domain # rest) domaintranslation =
     (if non_ascii domain then
        (case (if take 2 domain = ''*.''
               then bindE (idna_encode env (drop 2 domain)) (\<lambda>e. Inr (''*.'' @ e))
               else idna_encode env domain) of
           Inl e \<Rightarrow> Inl e
         | Inr idna_domain \<Rightarrow>
             idna_translate env rest (AList.update idna_domain domain domaintranslation))
      else idna_translate env rest domaintranslation)"

definition idna_convert :: "env \<Rightarrow> string list \<Rightarrow> pyerror + (string \<times> string) list" where
  "idna_convert env domainlist =
     (if idna_loaded env \<and> non_ascii (concat domainlist)
      then idna_translate env domainlist []
      else Inr [])"

text \<open>
  \<^verbatim>\<open>parse_config_entry(entry, globalconfig, runtimeconfig)\<close>, lines 85 to 192, in the
  order of the source. An entry is a pair of the domain-group key and its list of
  override documents. \<open>config_scalars\<close> is lines 99 to 152; \<open>ident\<close> is
  \<^verbatim>\<open>config['id']\<close>.
\<close>

definition config_scalars ::
  "env \<Rightarrow> pydict list \<Rightarrow> pydict \<Rightarrow> pydict \<Rightarrow> string \<Rightarrow> pydict \<Rightarrow> pyerror + pydict" where
  "config_scalars env localconfig globalconfig runtimeconfig ident config0 =
     bindE (update_config_value
              (dict_set config0 ''defaults'' (dict_get_default globalconfig ''defaults'' (PDict [])))
              ''api'' localconfig globalconfig (PStr DEFAULT_API)) (\<lambda>config.
     bindE (update_config_value config ''authority'' localconfig globalconfig
              (PStr DEFAULT_AUTHORITY)) (\<lambda>config.
     bindE (dict_getitem runtimeconfig ''authority_tos_agreement'') (\<lambda>tos.
     bindE (update_config_value config ''authority_tos_agreement'' localconfig globalconfig tos)
       (\<lambda>config.
     bindE (update_config_value config ''authority_contact_email'' localconfig globalconfig PNone)
       (\<lambda>config.
     bindE (dict_getitem runtimeconfig ''work_dir'') (\<lambda>work_dir.
     bindE (path_join work_dir ''account.key'') (\<lambda>account_key.
     bindE (update_config_value config ''account_key'' localconfig globalconfig (PStr account_key))
       (\<lambda>config.
     bindE (update_config_value config ''cert_dir'' localconfig globalconfig work_dir) (\<lambda>config.
     bindE (update_config_value config ''ttl_days'' localconfig globalconfig (PInt DEFAULT_TTL))
       (\<lambda>config.
     bindE (dict_getitem config ''ttl_days'') (\<lambda>ttl_days.
     bindE (py_int env ttl_days) (\<lambda>ttl.
     bindE (update_config_value (dict_set config ''ttl_days'' (PInt ttl))
              ''cert_revoke_superseded'' localconfig globalconfig (PStr ''false'')) (\<lambda>config.
     bindE (update_config_value config ''csr_static'' localconfig globalconfig (PStr ''false''))
       (\<lambda>config.
     bindE (dict_getitem config ''cert_dir'') (\<lambda>cert_dir.
     bindE (path_join cert_dir (ident @ ''.csr'')) (\<lambda>csr.
     bindE (update_config_value config ''csr_file'' localconfig globalconfig (PStr csr)) (\<lambda>config.
     bindE (path_join cert_dir (ident @ ''.crt'')) (\<lambda>crt.
     bindE (update_config_value config ''cert_file'' localconfig globalconfig
              (dict_get_default globalconfig ''server_cert'' (PStr crt))) (\<lambda>config.
     bindE (path_join cert_dir (ident @ ''.key'')) (\<lambda>key.
     bindE (update_config_value config ''key_file'' localconfig globalconfig
              (dict_get_default globalconfig ''server_key'' (PStr key))) (\<lambda>config.
     bindE (update_config_value config ''key_length'' localconfig globalconfig
              (PInt DEFAULT_KEY_LENGTH)) (\<lambda>config.
     bindE (dict_getitem config ''key_length'') (\<lambda>key_length.
     bindE (py_int env key_length) (\<lambda>n.
       Inr (dict_set config ''key_length'' (PInt n))))))))))))))))))))))))))"

text \<open>
  Lines 154 to 165. \<^verbatim>\<open>ca_files = [x for x in entry if 'ca_file' in x]\<close> runs over the two
  components of the pair \<open>entry\<close>: the key, a string, and the list of override documents.
\<close>

definition config_ca ::
  "entry \<Rightarrow> string \<Rightarrow> pydict \<Rightarrow> pydict \<Rightarrow> pyerror + pydict" where
  "config_ca entry ident globalconfig config =
     bindE (py_in ''ca_file'' (PStr (fst entry))) (\<lambda>in_key.
     bindE (py_in ''ca_file'' (PList (map PDict (snd entry)))) (\<lambda>in_list.
       (case (if in_key then [PStr (fst entry)] else [])
               @ (if in_list then [PList (map PDict (snd entry))] else []) of
          x # _ \<Rightarrow> Inr (dict_set (dict_set config ''static_ca'' (PBool True)) ''ca_file'' x)
        | [] \<Rightarrow>
            if dict_contains globalconfig ''server_ca'' then
              bindE (dict_getitem globalconfig ''server_ca'') (\<lambda>server_ca.
                Inr (dict_set (dict_set config ''static_ca'' (PBool True)) ''ca_file'' server_ca))
            else
              bindE (dict_getitem config ''cert_dir'') (\<lambda>cert_dir.
              bindE (path_join cert_dir (ident @ ''.ca'')) (\<lambda>ca.
                Inr (dict_set (dict_set config ''static_ca'' (PBool False)) ''ca_file'' (PStr ca)))))))"

text \<open>
  Lines 167 to 170. \<^verbatim>\<open>complete_action_config\<close> changes in place every override document
  that has a \<^verbatim>\<open>path\<close>, so the documents the handler part reads afterwards are the changed
  ones: \<open>complete_actions\<close> returns the override list as the loop leaves it, and
  \<^verbatim>\<open>config['actions']\<close> holds its documents with a \<^verbatim>\<open>path\<close>.
\<close>

fun complete_actions :: "pydict list \<Rightarrow> pydict \<Rightarrow> pyerror + pydict list" where
  "complete_actions [] config = Inr []"
| "complete_actions (x # xs) config =
     (if dict_contains x ''path'' then
        (case complete_action_config x config of
           Inl e \<Rightarrow> Inl e
         | Inr x' \<Rightarrow> (case complete_actions xs config of Inl e \<Rightarrow> Inl e | Inr xs' \<Rightarrow> Inr (x' # xs')))
      else (case complete_actions xs config of Inl e \<Rightarrow> Inl e | Inr xs' \<Rightarrow> Inr (x # xs')))"

text \<open>
  Lines 176 to 188, the body of the handler loop for one \<open>domain\<close>:
  \<^verbatim>\<open>copy.deepcopy(globalconfig)\<close> is the same value as \<open>globalconfig\<close>.
\<close>

definition handler_config ::
  "pydict \<Rightarrow> pydict list \<Rightarrow> (string \<times> string) list \<Rightarrow> string \<Rightarrow> pydict" where
  "handler_config globalconfig handlerconfigs domaintranslation domain =
     (let cfg = (case filter (\<lambda>x. \<not> dict_contains x ''domain'') handlerconfigs of
                   [] \<Rightarrow> globalconfig
                 | x # _ \<Rightarrow> dict_update globalconfig x);
          domain0 = (case map_of domaintranslation domain of None \<Rightarrow> domain | Some d \<Rightarrow> d)
      in (case filter (\<lambda>x. dict_contains x ''domain'' \<and> dict_get x ''domain'' = Some (PStr domain0))
                 handlerconfigs of
            [] \<Rightarrow> cfg
          | x # _ \<Rightarrow> dict_update cfg x))"

text \<open>Lines 173 to 190.\<close>

definition config_handlers ::
  "string list \<Rightarrow> (string \<times> string) list \<Rightarrow> pydict list \<Rightarrow> pydict \<Rightarrow> pydict" where
  "config_handlers domainlist domaintranslation localconfig globalconfig =
     fold (\<lambda>domain handlers.
             dict_set handlers domain
               (PDict (handler_config globalconfig
                  (filter (\<lambda>x. dict_contains x ''mode'') localconfig) domaintranslation domain)))
          domainlist []"

definition parse_config_entry :: "env \<Rightarrow> entry \<Rightarrow> pydict \<Rightarrow> pydict \<Rightarrow> pyerror + pydict" where
  "parse_config_entry env entry globalconfig runtimeconfig =
     bindE (idna_convert env (py_split CHR '' '' (fst entry))) (\<lambda>domaintranslation.
       (let ident = md5_hexdigest (fst entry);
            domainlist = (if domaintranslation \<noteq> [] then map snd domaintranslation
                          else py_split CHR '' '' (fst entry));
            domains = (if domaintranslation \<noteq> [] then py_join '' '' domainlist else fst entry);
            config = [(''domains'', PStr domains),
                      (''domainlist'', PList (map PStr domainlist)),
                      (''id'', PStr ident),
                      (''domaintranslation'',
                         PDict (map (\<lambda>kv. (fst kv, PStr (snd kv))) domaintranslation))]
        in bindE (config_scalars env (snd entry) globalconfig runtimeconfig ident config)
             (\<lambda>config.
           bindE (config_ca entry ident globalconfig config) (\<lambda>config.
           bindE (complete_actions (snd entry) config) (\<lambda>localconfig.
             Inr (dict_set
                    (dict_set config ''actions''
                       (PList (map PDict (filter (\<lambda>x. dict_contains x ''path'') localconfig))))
                    ''handlers''
                    (PDict (config_handlers domainlist domaintranslation localconfig
                              globalconfig))))))))"

text \<open>
  \<^verbatim>\<open>load()\<close>, lines 196 to 303. The parsed command line is a record; \<^verbatim>\<open>if args.x:\<close> holds
  for an option given with a non-empty value.
\<close>

record args =
  arg_config_file :: "string option"
  arg_config_dir :: "string option"
  arg_work_dir :: "string option"
  arg_authority_tos_agreement :: "string option"
  arg_force_renew :: "string option"
  arg_revoke :: "string option"
  arg_revoke_reason :: "int option"

fun truthy :: "string option \<Rightarrow> bool" where
  "truthy None = False"
| "truthy (Some s) = (s \<noteq> [])"

text \<open>Lines 215 to 222.\<close>

definition global_config_file :: "args \<Rightarrow> world \<Rightarrow> string" where
  "global_config_file a w =
     (if truthy (arg_config_file a) then the (arg_config_file a)
      else if os_path_isfile w LEGACY_CONF_FILE then LEGACY_CONF_FILE
      else DEFAULT_CONF_FILE)"

text \<open>Lines 224 to 231.\<close>

definition domain_config_dir :: "args \<Rightarrow> world \<Rightarrow> string" where
  "domain_config_dir a w =
     (if truthy (arg_config_dir a) then the (arg_config_dir a)
      else if os_path_isdir w LEGACY_CONF_DIR then LEGACY_CONF_DIR
      else DEFAULT_CONF_DIR)"

text \<open>Lines 235 to 241.\<close>

definition work_dir :: "args \<Rightarrow> world \<Rightarrow> string" where
  "work_dir a w =
     (if truthy (arg_work_dir a) then the (arg_work_dir a)
      else if os_path_isdir w LEGACY_WORK_DIR \<and> domain_config_dir a w = LEGACY_CONF_DIR
      then LEGACY_WORK_DIR
      else domain_config_dir a w)"

text \<open>Lines 246 to 267: the runtime configuration once the work directory is there.\<close>

definition runtime_options :: "env \<Rightarrow> args \<Rightarrow> world \<Rightarrow> pyerror + pydict" where
  "runtime_options env a w =
     (let rc1 = [(''work_dir'', PStr (work_dir a w)),
                 (''authority_tos_agreement'',
                    (if truthy (arg_authority_tos_agreement a)
                     then PStr (the (arg_authority_tos_agreement a))
                     else if global_config_file a w = LEGACY_CONF_FILE
                     then PStr LEGACY_AUTHORITY_TOS_AGREEMENT
                     else PNone))]
      in bindE (if truthy (arg_force_renew a) then
                  bindE (idna_convert env (py_split CHR '' '' (the (arg_force_renew a))))
                    (\<lambda>domaintranslation.
                       Inr (dict_set rc1 ''force_renew''
                              (if domaintranslation \<noteq> []
                               then PStr (py_join '' '' (map snd domaintranslation))
                               else PStr (the (arg_force_renew a)))))
                else Inr rc1) (\<lambda>rc2.
           Inr (if truthy (arg_revoke a) then
                  dict_set (dict_set (dict_set rc2 ''mode'' (PStr ''revoke''))
                      ''revoke'' (PStr (the (arg_revoke a))))
                    ''revoke_reason''
                    (case arg_revoke_reason a of None \<Rightarrow> PNone | Some n \<Rightarrow> PInt n)
                else rc2)))"

text \<open>Lines 233 to 267, with the \<^verbatim>\<open>os.mkdir\<close> of line 244.\<close>

definition load_runtimeconfig :: "env \<Rightarrow> args \<Rightarrow> world \<Rightarrow> (pyerror + pydict) \<times> world" where
  "load_runtimeconfig env a w =
     (if os_path_isdir w (work_dir a w) then (runtime_options env a w, w)
      else (case os_mkdir w (work_dir a w) of
              Inl e \<Rightarrow> (Inl e, w)
            | Inr w' \<Rightarrow> (runtime_options env a w, w')))"

text \<open>Lines 270 to 283.\<close>

definition load_globalconfig :: "env \<Rightarrow> world \<Rightarrow> string \<Rightarrow> pyerror + pydict" where
  "load_globalconfig env w gfile =
     bindE (case map_of (files w) gfile of
              None \<Rightarrow> Inr []
            | Some f \<Rightarrow>
                (case json_load env (f_content f) of
                   Inr g \<Rightarrow> Inr g
                 | Inl e \<Rightarrow> if is_ValueError e then yaml_safe_load env (f_content f) else Inl e))
       (\<lambda>g. Inr (if gfile = LEGACY_CONF_FILE then
                    (let g1 = (if dict_contains g ''api'' then g
                               else dict_set g ''api'' (PStr LEGACY_API))
                     in if dict_contains g1 ''authority'' then g1
                        else dict_set g1 ''authority'' (PStr LEGACY_AUTHORITY))
                  else g))"

text \<open>
  Lines 295 and 296 (or 300 and 301): the entries of one file are resolved and appended
  to \<^verbatim>\<open>domainconfigs\<close> one by one; an exception leaves what was appended before it.
\<close>

fun parse_entries ::
  "env \<Rightarrow> entry list \<Rightarrow> pydict \<Rightarrow> pydict \<Rightarrow> pydict list \<Rightarrow> pyerror option \<times> pydict list" where
  "parse_entries env [] globalconfig runtimeconfig domainconfigs = (None, domainconfigs)"
| "parse_entries env (entry # entries) globalconfig runtimeconfig domainconfigs =
     (case parse_config_entry env entry globalconfig runtimeconfig of
        Inl e \<Rightarrow> (Some e, domainconfigs)
      | Inr config \<Rightarrow>
          parse_entries env entries globalconfig runtimeconfig (domainconfigs @ [config]))"

text \<open>Lines 298 to 301, the handler of \<^verbatim>\<open>except ValueError\<close>.\<close>

definition load_yaml ::
  "env \<Rightarrow> string \<Rightarrow> pydict \<Rightarrow> pydict \<Rightarrow> pydict list \<Rightarrow> pyerror option \<times> pydict list" where
  "load_yaml env text globalconfig runtimeconfig domainconfigs =
     (case yaml_items env text of
        Inl e \<Rightarrow> (Some e, domainconfigs)
      | Inr entries \<Rightarrow> parse_entries env entries globalconfig runtimeconfig domainconfigs)"

text \<open>Lines 294 to 301 for the text of one domain file.\<close>

definition load_domain_file ::
  "env \<Rightarrow> string \<Rightarrow> pydict \<Rightarrow> pydict \<Rightarrow> pydict list \<Rightarrow> pyerror option \<times> pydict list" where
  "load_domain_file env text globalconfig runtimeconfig domainconfigs =
     (case json_items env text of
        Inl e \<Rightarrow>
          if is_ValueError e then load_yaml env text globalconfig runtimeconfig domainconfigs
          else (Some e, domainconfigs)
      | Inr entries \<Rightarrow>
          (case parse_entries env entries globalconfig runtimeconfig domainconfigs of
             (None, domainconfigs') \<Rightarrow> (None, domainconfigs')
           | (Some e, domainconfigs') \<Rightarrow>
               if is_ValueError e
               then load_yaml env text globalconfig runtimeconfig domainconfigs'
               else (Some e, domainconfigs')))"

text \<open>Lines 288 to 301, the loop over \<^verbatim>\<open>os.listdir(domain_config_dir)\<close>.\<close>

fun load_domain_files ::
  "env \<Rightarrow> world \<Rightarrow> string \<Rightarrow> string \<Rightarrow> string list \<Rightarrow> pydict \<Rightarrow> pydict \<Rightarrow> pydict list
     \<Rightarrow> pyerror option \<times> pydict list" where
  "load_domain_files env w dir gfile [] globalconfig runtimeconfig domainconfigs =
     (None, domainconfigs)"
| "load_domain_files env w dir gfile (name # names) globalconfig runtimeconfig domainconfigs =
     (if endswith (os_path_join dir name) ''.conf''
         \<and> abspath env (os_path_join dir name) \<noteq> abspath env gfile
      then
        (case read_file w (os_path_join dir name) of
           Inl e \<Rightarrow> (Some e, domainconfigs)
         | Inr text \<Rightarrow>
             (case load_domain_file env text globalconfig runtimeconfig domainconfigs of
                (Some e, domainconfigs') \<Rightarrow> (Some e, domainconfigs')
              | (None, domainconfigs') \<Rightarrow>
                  load_domain_files env w dir gfile names globalconfig runtimeconfig
                    domainconfigs'))
      else load_domain_files env w dir gfile names globalconfig runtimeconfig domainconfigs)"

definition os_listdir :: "world \<Rightarrow> string \<Rightarrow> string list" where
  "os_listdir w p = (case map_of (dirs w) p of None \<Rightarrow> [] | Some names \<Rightarrow> names)"

text \<open>Lines 285 to 301.\<close>

definition load_domainconfigs ::
  "env \<Rightarrow> world \<Rightarrow> string \<Rightarrow> string \<Rightarrow> pydict \<Rightarrow> pydict \<Rightarrow> pyerror option \<times> pydict list" where
  "load_domainconfigs env w dir gfile globalconfig runtimeconfig =
     (if os_path_isdir w dir
      then load_domain_files env w dir gfile (os_listdir w dir) globalconfig runtimeconfig []
      else (None, []))"

text \<open>
  \<^verbatim>\<open>load()\<close>: the pair \<^verbatim>\<open>(runtimeconfig, domainconfigs)\<close> of line 303, or the exception
  that ended it, and the world (the work directory may have been created).
\<close>

definition load ::
  "env \<Rightarrow> args \<Rightarrow> world \<Rightarrow> (pyerror + pydict \<times> pydict list) \<times> world" where
  "load env a w =
     (case load_runtimeconfig env a w of
        (Inl e, w') \<Rightarrow> (Inl e, w')
      | (Inr runtimeconfig, w') \<Rightarrow>
          (case load_globalconfig env w' (global_config_file a w) of
             Inl e \<Rightarrow> (Inl e, w')
           | Inr globalconfig \<Rightarrow>
               (case load_domainconfigs env w' (domain_config_dir a w) (global_config_file a w)
                       globalconfig runtimeconfig of
                  (Some e, domainconfigs) \<Rightarrow> (Inl e, w')
                | (None, domainconfigs) \<Rightarrow> (Inr (runtimeconfig, domainconfigs), w'))))"

section \<open>__init__.py\<close>

text \<open>
  A path out of a dictionary, handed to \<^verbatim>\<open>io.open\<close>: a string is a path; a number would be
  a file descriptor, of which the model has none open.
\<close>

fun open_read :: "world \<Rightarrow> pyval \<Rightarrow> pyerror + string" where
  "open_read w (PStr p) = read_file w p"
| "open_read w (PInt n) = Inl OSError"
| "open_read w (PBool b) = Inl OSError"
| "open_read w _ = Inl TypeError"

text \<open>
  \<^verbatim>\<open>io.open(p, "w+")\<close> creates the file or truncates it. The text written to the stream
  reaches the file when the stream is closed, at the end of the \<^verbatim>\<open>with\<close> block, also when
  an exception leaves the block (a text of more than the stream's buffer would reach it in
  pieces before; the model's files change only at the close).
\<close>

definition open_truncate :: "env \<Rightarrow> world \<Rightarrow> string \<Rightarrow> pyerror + world" where
  "open_truncate env w p =
     (if CHR 0x00 \<in> set p then Inl ValueError
      else if p = [] then Inl (FileNotFoundError p)
      else if os_path_isdir w p then Inl (IsADirectoryError p)
      else if \<not> parent_exists w p then Inl (FileNotFoundError p)
      else Inr (w\<lparr>files :=
             AList.update p
               (case map_of (files w) p of
                  None \<Rightarrow> \<lparr>f_content = [], f_mtime = clock w, f_uid = process_uid env,
                             f_gid = process_gid env, f_mode = create_mode env\<rparr>
                | Some f \<Rightarrow> f\<lparr>f_content := [], f_mtime := clock w\<rparr>)
               (files w)\<rparr>))"

fun open_write :: "env \<Rightarrow> world \<Rightarrow> pyval \<Rightarrow> pyerror + world" where
  "open_write env w (PStr p) = open_truncate env w p"
| "open_write env w (PInt n) = Inl OSError"
| "open_write env w (PBool b) = Inl OSError"
| "open_write env w _ = Inl TypeError"

definition change_file :: "world \<Rightarrow> string \<Rightarrow> (regfile \<Rightarrow> regfile) \<Rightarrow> world" where
  "change_file w p change =
     (case map_of (files w) p of
        None \<Rightarrow> w
      | Some f \<Rightarrow> w\<lparr>files := AList.update p (change f) (files w)\<rparr>)"

text \<open>
  The \<^verbatim>\<open>for\<close> loop of \<^verbatim>\<open>cert_put\<close>, lines 110 to 127, over the format tokens: the text
  written to the stream so far is the accumulator, and the result says whether an
  exception ended the loop and what had been written by then.
\<close>

fun write_formats ::
  "world \<Rightarrow> pyval \<Rightarrow> pyval \<Rightarrow> pyval \<Rightarrow> string list \<Rightarrow> string \<Rightarrow> pyerror option \<times> string" where
  "write_formats w ca_file key_file crt_final [] written = (None, written)"
| "write_formats w ca_file key_file crt_final (fmt # crt_format) written =
     (if fmt = ''crt'' then
        (case open_read w crt_final of
           Inl e \<Rightarrow> (Some e, written)
         | Inr text \<Rightarrow> write_formats w ca_file key_file crt_final crt_format (written @ text))
      else if fmt = ''key'' then
        (case open_read w key_file of
           Inl e \<Rightarrow> (Some e, written)
         | Inr text \<Rightarrow> write_formats w ca_file key_file crt_final crt_format (written @ text))
      else if fmt = ''ca'' then
        (case isfile w ca_file of
           Inl e \<Rightarrow> (Some e, written)
         | Inr False \<Rightarrow> (Some (MissingCAFile ca_file), written)
         | Inr True \<Rightarrow>
             (case open_read w ca_file of
                Inl e \<Rightarrow> (Some e, written)
              | Inr text \<Rightarrow> write_formats w ca_file key_file crt_final crt_format (written @ text)))
      else write_formats w ca_file key_file crt_final crt_format written)"

text \<open>\<^verbatim>\<open>pwd.getpwnam(name).pw_uid\<close> and \<^verbatim>\<open>grp.getgrnam(name).gr_gid\<close>\<close>

fun lookup_id :: "(string \<Rightarrow> nat option) \<Rightarrow> pyval \<Rightarrow> pyerror + nat" where
  "lookup_id db (PStr name) = (case db name of None \<Rightarrow> Inl (KeyError name) | Some n \<Rightarrow> Inr n)"
| "lookup_id db _ = Inl TypeError"

text \<open>Lines 130 to 141, after the \<^verbatim>\<open>with\<close> block; \<open>p\<close> is the target path.\<close>

definition set_owner_and_permissions ::
  "env \<Rightarrow> world \<Rightarrow> string \<Rightarrow> pyval \<Rightarrow> pyval \<Rightarrow> pyval \<Rightarrow> pyval \<Rightarrow> (pyerror + pyval) \<times> world" where
  "set_owner_and_permissions env w p crt_user crt_group crt_perm crt_action =
     (case lookup_id (getpwnam env) crt_user of
        Inl e \<Rightarrow> (Inl e, w)
      | Inr uid \<Rightarrow>
          (case lookup_id (getgrnam env) crt_group of
             Inl e \<Rightarrow> (Inl e, w)
           | Inr gid \<Rightarrow>
               (let w1 = (if chown_fails env p then w
                          else change_file w p (\<lambda>f. f\<lparr>f_uid := uid, f_gid := gid\<rparr>))
                in (case py_int8 env crt_perm of
                      Inl e \<Rightarrow> (Inl e, w1)
                    | Inr perm \<Rightarrow>
                        (Inr crt_action,
                         if chmod_fails env p then w1
                         else change_file w1 p (\<lambda>f. f\<lparr>f_mode := perm\<rparr>))))))"

text \<open>
  Lines 109 to 141: the \<^verbatim>\<open>with\<close> block and what follows it, for a target path that is a
  string and the stripped format tokens.
\<close>

definition put_file ::
  "env \<Rightarrow> world \<Rightarrow> string \<Rightarrow> pyval \<Rightarrow> pyval \<Rightarrow> pyval \<Rightarrow> string list
     \<Rightarrow> pyval \<Rightarrow> pyval \<Rightarrow> pyval \<Rightarrow> pyval \<Rightarrow> (pyerror + pyval) \<times> world" where
  "put_file env w p ca_file key_file crt_final crt_format crt_user crt_group crt_perm crt_action =
     (case open_truncate env w p of
        Inl e \<Rightarrow> (Inl e, w)
      | Inr w1 \<Rightarrow>
          (case fst (write_formats w1 ca_file key_file crt_final crt_format []) of
             Some e \<Rightarrow>
               (Inl e,
                change_file w1 p
                  (\<lambda>f. f\<lparr>f_content := snd (write_formats w1 ca_file key_file crt_final crt_format [])\<rparr>))
           | None \<Rightarrow>
               set_owner_and_permissions env
                 (change_file w1 p
                    (\<lambda>f. f\<lparr>f_content := snd (write_formats w1 ca_file key_file crt_final crt_format [])\<rparr>))
                 p crt_user crt_group crt_perm crt_action))"

text \<open>\<^verbatim>\<open>settings['format'].split(",")\<close> and the \<^verbatim>\<open>str.strip\<close> of each token, lines 102 and 103.\<close>

fun split_format :: "pyval \<Rightarrow> pyerror + string list" where
  "split_format (PStr f) = Inr (map py_strip (py_split CHR '','' f))"
| "split_format _ = Inl AttributeError"

text \<open>
  \<^verbatim>\<open>cert_put(settings)\<close>, lines 95 to 141: the action it returns or the exception it
  raises, and the world it leaves.
\<close>

definition cert_put :: "env \<Rightarrow> pyval \<Rightarrow> world \<Rightarrow> (pyerror + pyval) \<times> world" where
  "cert_put env settings w =
     (case
        bindE (py_getitem settings ''ca_file'') (\<lambda>ca_file.
        bindE (py_getitem settings ''user'') (\<lambda>crt_user.
        bindE (py_getitem settings ''group'') (\<lambda>crt_group.
        bindE (py_getitem settings ''perm'') (\<lambda>crt_perm.
        bindE (py_getitem settings ''path'') (\<lambda>crt_path.
        bindE (py_getitem settings ''format'') (\<lambda>format.
        bindE (split_format format) (\<lambda>crt_format.
        bindE (py_getitem settings ''action'') (\<lambda>crt_action.
        bindE (py_getitem settings ''key_file'') (\<lambda>key_file.
        bindE (py_getitem settings ''cert_file'') (\<lambda>crt_final.
          (case crt_path of
             PStr p \<Rightarrow>
               Inr (put_file env w p ca_file key_file crt_final crt_format
                      crt_user crt_group crt_perm crt_action)
           | PInt n \<Rightarrow> Inl OSError
           | PBool b \<Rightarrow> Inl OSError
           | _ \<Rightarrow> Inl TypeError)))))))))))
      of Inl e \<Rightarrow> (Inl e, w)
       | Inr result \<Rightarrow> result)"

text \<open>
  The state of a run of \<^verbatim>\<open>main\<close>: the world; the set \<^verbatim>\<open>actions\<close> (its elements, each
  once); and, to state what a run did, the arguments of the calls of \<^verbatim>\<open>cert_get\<close>, the
  values the calls of \<^verbatim>\<open>cert_put\<close> returned and the command lines handed to
  \<^verbatim>\<open>subprocess.check_output\<close>, in order.
\<close>

record run_state =
  rs_world :: world
  rs_actions :: "pyval list"
  rs_issued :: "pyval list"
  rs_emitted :: "pyval list"
  rs_executed :: "string list"

text \<open>
  Equality of two hashable values as a Python set sees it: numbers are compared by value
  across \<^verbatim>\<open>bool\<close>, \<^verbatim>\<open>int\<close> and \<^verbatim>\<open>float\<close>, and a NaN equals nothing.
\<close>

fun py_number :: "pyval \<Rightarrow> rat option" where
  "py_number (PBool b) = Some (if b then 1 else 0)"
| "py_number (PInt n) = Some (of_int n)"
| "py_number (PFloat (Finite r)) = Some r"
| "py_number _ = None"

definition py_eq :: "pyval \<Rightarrow> pyval \<Rightarrow> bool" where
  "py_eq x y =
     (if x = PFloat NaN \<or> y = PFloat NaN then False
      else if py_number x \<noteq> None \<and> py_number y \<noteq> None then py_number x = py_number y
      else x = y)"

text \<open>\<^verbatim>\<open>actions.add(x)\<close>: a list or a dictionary is not hashable.\<close>

fun set_add :: "pyval list \<Rightarrow> pyval \<Rightarrow> pyerror + pyval list" where
  "set_add xs (PList l) = Inl TypeError"
| "set_add xs (PDict d) = Inl TypeError"
| "set_add xs x = Inr (if list_ex (\<lambda>y. py_eq y x) xs then xs else xs @ [x])"

text \<open>\<^verbatim>\<open>for x in v\<close>\<close>

fun py_iter :: "pyval \<Rightarrow> pyerror + pyval list" where
  "py_iter (PList xs) = Inr xs"
| "py_iter (PDict d) = Inr (map (\<lambda>kv. PStr (fst kv)) d)"
| "py_iter (PStr s) = Inr (map (\<lambda>c. PStr [c]) s)"
| "py_iter _ = Inl TypeError"

text \<open>
  Lines 153 to 158 for one \<open>config\<close>: whether \<^verbatim>\<open>cert_get\<close> is called. The call is
  recorded in \<open>rs_issued\<close>; what it does to the files is the environment's.
\<close>

definition needs_issuance :: "env \<Rightarrow> pyval \<Rightarrow> world \<Rightarrow> pyerror + bool" where
  "needs_issuance env config w =
     bindE (py_getitem config ''cert_file'') (\<lambda>cert_file.
     bindE (isfile w cert_file) (\<lambda>cert_file_exists.
       if cert_file_exists then
         bindE (read_pem_file env w cert_file) (\<lambda>cert.
         bindE (py_getitem config ''ttl_days'') (\<lambda>ttl_days.
         bindE (is_cert_valid env cert ttl_days) (\<lambda>valid. Inr (\<not> valid))))
       else Inr True))"

definition renew :: "env \<Rightarrow> pyval \<Rightarrow> run_state \<Rightarrow> pyerror option \<times> run_state" where
  "renew env config s =
     (case needs_issuance env config (rs_world s) of
        Inl e \<Rightarrow> (Some e, s)
      | Inr False \<Rightarrow> (None, s)
      | Inr True \<Rightarrow>
          (fst (cert_get_effect env config (rs_world s)),
           s\<lparr>rs_world := snd (cert_get_effect env config (rs_world s)),
             rs_issued := rs_issued s @ [config]\<rparr>))"

text \<open>Lines 160 to 163, the loop over \<^verbatim>\<open>config['actions']\<close>.\<close>

fun deploy_targets ::
  "env \<Rightarrow> pyval \<Rightarrow> pyval list \<Rightarrow> run_state \<Rightarrow> pyerror option \<times> run_state" where
  "deploy_targets env cert_file [] s = (None, s)"
| "deploy_targets env cert_file (cfg # cfgs) s =
     (case bindE (py_getitem cfg ''path'') (\<lambda>path.
             target_is_current env (rs_world s) path cert_file) of
        Inl e \<Rightarrow> (Some e, s)
      | Inr True \<Rightarrow> deploy_targets env cert_file cfgs s
      | Inr False \<Rightarrow>
          (case fst (cert_put env cfg (rs_world s)) of
             Inl e \<Rightarrow> (Some e, s\<lparr>rs_world := snd (cert_put env cfg (rs_world s))\<rparr>)
           | Inr action \<Rightarrow>
               (case set_add (rs_actions s) action of
                  Inl e \<Rightarrow>
                    (Some e, s\<lparr>rs_world := snd (cert_put env cfg (rs_world s)),
                               rs_emitted := rs_emitted s @ [action]\<rparr>)
                | Inr actions \<Rightarrow>
                    deploy_targets env cert_file cfgs
                      (s\<lparr>rs_world := snd (cert_put env cfg (rs_world s)),
                         rs_actions := actions,
                         rs_emitted := rs_emitted s @ [action]\<rparr>))))"

text \<open>Lines 153 to 163, the body of the loop over \<^verbatim>\<open>configs\<close> for one \<open>config\<close>.\<close>

definition main_config :: "env \<Rightarrow> pyval \<Rightarrow> run_state \<Rightarrow> pyerror option \<times> run_state" where
  "main_config env config s =
     (case fst (renew env config s) of
        Some e \<Rightarrow> renew env config s
      | None \<Rightarrow>
          (case bindE (py_getitem config ''actions'') py_iter of
             Inl e \<Rightarrow> (Some e, snd (renew env config s))
           | Inr cfgs \<Rightarrow>
               (case py_getitem config ''cert_file'' of
                  Inl e \<Rightarrow> (Some e, snd (renew env config s))
                | Inr cert_file \<Rightarrow> deploy_targets env cert_file cfgs (snd (renew env config s)))))"

text \<open>Lines 152 to 163.\<close>

fun main_loop :: "env \<Rightarrow> pyval list \<Rightarrow> run_state \<Rightarrow> pyerror option \<times> run_state" where
  "main_loop env [] s = (None, s)"
| "main_loop env (config # configs) s =
     (case fst (main_config env config s) of
        Some e \<Rightarrow> main_config env config s
      | None \<Rightarrow> main_loop env configs (snd (main_config env config s)))"

text \<open>
  Lines 166 to 173. \<^verbatim>\<open>check_output(action, shell=True)\<close> runs a string; a
  \<^verbatim>\<open>CalledProcessError\<close> is caught. A string with a NUL is a \<^verbatim>\<open>ValueError\<close>, a value that
  is no string a \<^verbatim>\<open>TypeError\<close>, and neither is caught. Python leaves the order in which
  the elements of a set come open; the model takes them in the order they were added.
\<close>

fun run_actions :: "pyval list \<Rightarrow> run_state \<Rightarrow> pyerror option \<times> run_state" where
  "run_actions [] s = (None, s)"
| "run_actions (PNone # actions) s = run_actions actions s"
| "run_actions (PStr cmd # actions) s =
     (if CHR 0x00 \<in> set cmd then (Some ValueError, s)
      else run_actions actions (s\<lparr>rs_executed := rs_executed s @ [cmd]\<rparr>))"
| "run_actions (_ # actions) s = (Some TypeError, s)"

text \<open>Lines 148 to 173: \<^verbatim>\<open>main\<close> once \<^verbatim>\<open>configs\<close> is there.\<close>

definition main_run :: "env \<Rightarrow> pyval list \<Rightarrow> world \<Rightarrow> pyerror option \<times> run_state" where
  "main_run env configs w =
     (case fst (main_loop env configs
                  \<lparr>rs_world = w, rs_actions = [], rs_issued = [], rs_emitted = [], rs_executed = []\<rparr>) of
        Some e \<Rightarrow>
          main_loop env configs
            \<lparr>rs_world = w, rs_actions = [], rs_issued = [], rs_emitted = [], rs_executed = []\<rparr>
      | None \<Rightarrow>
          run_actions
            (rs_actions (snd (main_loop env configs
               \<lparr>rs_world = w, rs_actions = [], rs_issued = [], rs_emitted = [], rs_executed = []\<rparr>)))
            (snd (main_loop env configs
               \<lparr>rs_world = w, rs_actions = [], rs_issued = [], rs_emitted = [], rs_executed = []\<rparr>)))"

text \<open>
  \<^verbatim>\<open>main()\<close>, lines 144 to 173. \<^verbatim>\<open>configs = configuration.load()\<close> is the pair
  \<^verbatim>\<open>(runtimeconfig, domainconfigs)\<close>, and \<^verbatim>\<open>for config in configs\<close> runs over its two
  components: the runtime configuration, a dictionary, and then the list of the resolved
  domain-group configurations.
\<close>

definition main :: "env \<Rightarrow> args \<Rightarrow> world \<Rightarrow> pyerror option \<times> run_state" where
  "main env a w =
     (case fst (load env a w) of
        Inl e \<Rightarrow>
          (Some e, \<lparr>rs_world = snd (load env a w), rs_actions = [], rs_issued = [],
                     rs_emitted = [], rs_executed = []\<rparr>)
      | Inr configs \<Rightarrow>
          main_run env [PDict (fst configs), PList (map PDict (snd configs))] (snd (load env a w)))"

section \<open>Example inputs\<close>

text \<open>
  An environment for the worked examples: \<^verbatim>\<open>idna\<close> is loaded and translates the one name
  \<^verbatim>\<open>b\<uuml>cher.de\<close> (\<open>CHR 0xC3, CHR 0xBC\<close> are the UTF-8 bytes of \<^verbatim>\<open>\<uuml>\<close>); the
  integer literals are \<^verbatim>\<open>30\<close> and the octal \<^verbatim>\<open>600\<close>; the only text that parses is the YAML
  \<^verbatim>\<open>example.com: []\<close>, one group with no override document; paths are
  absolute already; \<^verbatim>\<open>root\<close> is the one user and group; a certificate is valid when its
  text says so; a target is current when it exists and is not older than the
  certificate; and \<^verbatim>\<open>cert_get\<close> leaves the files as they are.
\<close>

definition buecher_de :: string where
  "buecher_de = ''b'' @ [CHR 0xC3, CHR 0xBC] @ ''cher.de''"

definition example_target_is_current :: "world \<Rightarrow> pyval \<Rightarrow> pyval \<Rightarrow> pyerror + bool" where
  "example_target_is_current w target cert_file =
     (case target of
        PStr p \<Rightarrow>
          (case map_of (files w) p of
             None \<Rightarrow> Inr False
           | Some f \<Rightarrow>
               (case cert_file of
                  PStr c \<Rightarrow>
                    (case map_of (files w) c of
                       None \<Rightarrow> Inl (FileNotFoundError c)
                     | Some g \<Rightarrow> Inr (f_mtime g \<le> f_mtime f))
                | _ \<Rightarrow> Inl TypeError))
      | _ \<Rightarrow> Inl TypeError)"

definition example_env :: env where
  "example_env =
     \<lparr>idna_loaded = True,
      idna_encode = (\<lambda>s. if s = buecher_de then Inr ''xn--bcher-kva.de'' else Inl IDNAError),
      int_of_str = (\<lambda>base s. if base = 10 \<and> s = ''30'' then Some 30
                               else if base = 8 \<and> s = ''600'' then Some 384 else None),
      json_load = (\<lambda>text. Inl JSONDecodeError),
      yaml_safe_load = (\<lambda>text. Inl YAMLError),
      json_items = (\<lambda>text. Inl JSONDecodeError),
      yaml_items = (\<lambda>text. if text = ''example.com: []'' then Inr [(''example.com'', [])]
                             else Inl YAMLError),
      abspath = (\<lambda>p. p),
      getpwnam = (\<lambda>name. if name = ''root'' then Some 0 else None),
      getgrnam = (\<lambda>name. if name = ''root'' then Some 0 else None),
      process_uid = 0,
      process_gid = 0,
      create_mode = 420,
      chown_fails = (\<lambda>p. False),
      chmod_fails = (\<lambda>p. False),
      read_pem_file = (\<lambda>w p. bindE (open_read w p) (\<lambda>text. Inr (PStr text))),
      is_cert_valid = (\<lambda>cert ttl_days. Inr (cert = PStr ''valid certificate'')),
      target_is_current = example_target_is_current,
      cert_get_effect = (\<lambda>config w. (None, w))\<rparr>"

definition example_runtimeconfig :: pydict where
  "example_runtimeconfig =
     [(''work_dir'', PStr ''/etc/acertmgr''), (''authority_tos_agreement'', PNone)]"

text \<open>The value a resolution gives a key, when it succeeds.\<close>

definition resolved :: "pyerror + pydict \<Rightarrow> string \<Rightarrow> pyval option" where
  "resolved r k = (case r of Inl e \<Rightarrow> None | Inr config \<Rightarrow> dict_get config k)"

text \<open>
  What the entry \<^verbatim>\<open>"example.com": []\<close> resolves to under an empty global configuration
  and the runtime configuration above.
\<close>

definition example_com_config :: pydict where
  "example_com_config =
     [(''domains'', PStr ''example.com''),
      (''domainlist'', PList [PStr ''example.com'']),
      (''id'', PStr ''5ababd603b22780302dd8d83498e5172''),
      (''domaintranslation'', PDict []),
      (''defaults'', PDict []),
      (''api'', PStr ''v2''),
      (''authority'', PStr ''https://acme-v02.api.letsencrypt.org''),
      (''authority_tos_agreement'', PNone),
      (''authority_contact_email'', PNone),
      (''account_key'', PStr ''/etc/acertmgr/account.key''),
      (''cert_dir'', PStr ''/etc/acertmgr''),
      (''ttl_days'', PInt 30),
      (''cert_revoke_superseded'', PStr ''false''),
      (''csr_static'', PStr ''false''),
      (''csr_file'', PStr ''/etc/acertmgr/5ababd603b22780302dd8d83498e5172.csr''),
      (''cert_file'', PStr ''/etc/acertmgr/5ababd603b22780302dd8d83498e5172.crt''),
      (''key_file'', PStr ''/etc/acertmgr/5ababd603b22780302dd8d83498e5172.key''),
      (''key_length'', PInt 4096),
      (''static_ca'', PBool False),
      (''ca_file'', PStr ''/etc/acertmgr/5ababd603b22780302dd8d83498e5172.ca''),
      (''actions'', PList []),
      (''handlers'', PDict [(''example.com'', PDict [])])]"

text \<open>
  A world for \<^verbatim>\<open>load\<close> and \<^verbatim>\<open>main\<close>: the configuration directory \<^verbatim>\<open>/etc/acertmgr\<close>
  holds the one domain file \<^verbatim>\<open>example.conf\<close>; there is no global file, no legacy
  directory and no certificate. No option is given on the command line.
\<close>

definition example_args :: args where
  "example_args =
     \<lparr>arg_config_file = None, arg_config_dir = None, arg_work_dir = None,
      arg_authority_tos_agreement = None, arg_force_renew = None, arg_revoke = None,
      arg_revoke_reason = None\<rparr>"

definition text_file :: "string \<Rightarrow> nat \<Rightarrow> regfile" where
  "text_file text t = \<lparr>f_content = text, f_mtime = t, f_uid = 0, f_gid = 0, f_mode = 420\<rparr>"

definition example_world :: world where
  "example_world =
     \<lparr>files = [(''/etc/acertmgr/example.conf'', text_file ''example.com: []'' 10)],
      dirs = [(''/'', [''etc'']), (''/etc'', [''acertmgr'', ''ssl'']),
              (''/etc/acertmgr'', [''example.conf'']), (''/etc/ssl'', [])],
      clock = 100\<rparr>"

text \<open>The same with a second domain file that neither parser accepts.\<close>

definition broken_world :: world where
  "broken_world =
     \<lparr>files = [(''/etc/acertmgr/example.conf'', text_file ''example.com: []'' 10),
               (''/etc/acertmgr/broken.conf'', text_file ''{'' 10)],
      dirs = [(''/'', [''etc'']), (''/etc'', [''acertmgr'', ''ssl'']),
              (''/etc/acertmgr'', [''example.conf'', ''broken.conf'']), (''/etc/ssl'', [])],
      clock = 100\<rparr>"

section \<open>Properties\<close>

subsection \<open>Evaluating MD5\<close>

lemma replicate_numeral: "replicate (numeral n) x = x # replicate (pred_numeral n) x"
  by (simp add: numeral_eq_Suc)

lemma le_bytes_numeral: "le_bytes (numeral n) v = char_of v # le_bytes (pred_numeral n) (v div 256)"
  using le_bytes.simps(2) [of "pred_numeral n" v] by (simp only: numeral_eq_Suc)

lemma md5_rounds_numeral:
  "md5_rounds m (numeral n) i st = md5_rounds m (pred_numeral n) (i + 1) (md5_round m st i)"
  using md5_rounds.simps(2) [of m "pred_numeral n" i st] by (simp only: numeral_eq_Suc)

lemmas md5_eval =
  md5_hexdigest_def md5_pad_def replicate_numeral le_bytes_numeral md5_rounds_numeral
  md5_block_def le_word_def md5_F_def md5_g_def md5_s_def md5_K_def add32_def not32_def
  rotl32_def hex_byte_def hex_digit_def

text \<open>The digests \<^verbatim>\<open>hashlib\<close> gives for the keys of the examples.\<close>

lemma md5_example_com: "md5_hexdigest ''example.com'' = ''5ababd603b22780302dd8d83498e5172''"
  by (simp add: md5_eval)

lemma md5_a_b: "md5_hexdigest ''a.com b.com'' = ''480543b3008926cc9aa49d74fcc4b227''"
  by (simp add: md5_eval)

lemma md5_b_a: "md5_hexdigest ''b.com a.com'' = ''d34d225ebb1592ff4bb036dd3dc94a79''"
  by (simp add: md5_eval)

subsection \<open>Exceptions and dictionaries\<close>

lemma bindE_Inl: "bindE (Inl e) f = Inl e" by (simp add: bindE_def)
lemma bindE_Inr: "bindE (Inr v) f = f v" by (simp add: bindE_def)
lemma bindE_cong_weak: "m = m' \<Longrightarrow> bindE m f = bindE m' f" by simp
lemma bindE_eq_Inr: "bindE m f = Inr y \<longleftrightarrow> (\<exists>v. m = Inr v \<and> f v = Inr y)"
  by (cases m) (simp_all add: bindE_def)

lemma dict_get_set: "dict_get (dict_set d k v) k' = (if k' = k then Some v else dict_get d k')"
  by (simp add: dict_get_def dict_set_def update_conv')

lemma dict_contains_set: "dict_contains (dict_set d k v) k' = (k' = k \<or> dict_contains d k')"
  by (simp add: dict_contains_def dict_set_def update_conv')

lemma dict_getitem_Inr: "dict_getitem d k = Inr v \<longleftrightarrow> dict_get d k = Some v"
  by (simp add: dict_getitem_def dict_get_def split: option.splits)

subsection \<open>Precedence of override documents, global configuration and defaults\<close>

lemma update_config_value_total:
  "\<exists>v. update_config_value config name localconfig globalconfig dflt = Inr (dict_set config name v)"
proof (cases "filter (\<lambda>x. dict_contains x name) localconfig")
  case Nil
  then show ?thesis by (auto simp: update_config_value_def)
next
  case (Cons x xs)
  then have "x \<in> set (filter (\<lambda>x. dict_contains x name) localconfig)" by simp
  then have "dict_contains x name" by simp
  then obtain v where "map_of x name = Some v" by (auto simp: dict_contains_def)
  with Cons have "update_config_value config name localconfig globalconfig dflt
      = Inr (dict_set config name v)"
    by (simp add: update_config_value_def dict_getitem_def bindE_def)
  then show ?thesis by blast
qed

text \<open>
  Claim C6. \<^verbatim>\<open>update_config_value\<close> sets \<^verbatim>\<open>config[name]\<close> from the first override
  document of the list that has the key \<open>name\<close>, whatever the documents after it hold;
  when no override document has the key, from the global configuration; and when that has
  no such key either, to the default handed in.
\<close>

theorem update_config_value_precedence:
  "((\<forall>x \<in> set before. \<not> dict_contains x name) \<and> dict_get x name = Some v \<longrightarrow>
      update_config_value config name (before @ x # later) globalconfig dflt
        = Inr (dict_set config name v))
   \<and> ((\<forall>x \<in> set localconfig. \<not> dict_contains x name) \<and> dict_get globalconfig name = Some v \<longrightarrow>
      update_config_value config name localconfig globalconfig dflt = Inr (dict_set config name v))
   \<and> ((\<forall>x \<in> set localconfig. \<not> dict_contains x name) \<and> dict_get globalconfig name = None \<longrightarrow>
      update_config_value config name localconfig globalconfig dflt = Inr (dict_set config name dflt))"
proof (intro conjI impI)
  assume a: "(\<forall>x \<in> set before. \<not> dict_contains x name) \<and> dict_get x name = Some v"
  then have "filter (\<lambda>x. dict_contains x name) before = []" by (simp add: filter_empty_conv)
  moreover from a have "dict_contains x name" by (simp add: dict_contains_def dict_get_def)
  ultimately have "filter (\<lambda>x. dict_contains x name) (before @ x # later)
      = x # filter (\<lambda>x. dict_contains x name) later" by simp
  with a show "update_config_value config name (before @ x # later) globalconfig dflt
        = Inr (dict_set config name v)"
    by (simp add: update_config_value_def dict_getitem_def dict_get_def bindE_def)
next
  assume a: "(\<forall>x \<in> set localconfig. \<not> dict_contains x name) \<and> dict_get globalconfig name = Some v"
  then have "filter (\<lambda>x. dict_contains x name) localconfig = []" by (simp add: filter_empty_conv)
  with a show "update_config_value config name localconfig globalconfig dflt = Inr (dict_set config name v)"
    by (simp add: update_config_value_def dict_get_default_def dict_get_def)
next
  assume a: "(\<forall>x \<in> set localconfig. \<not> dict_contains x name) \<and> dict_get globalconfig name = None"
  then have "filter (\<lambda>x. dict_contains x name) localconfig = []" by (simp add: filter_empty_conv)
  with a show "update_config_value config name localconfig globalconfig dflt = Inr (dict_set config name dflt)"
    by (simp add: update_config_value_def dict_get_default_def dict_get_def)
qed

theorem update_config_value_precedence_witness:
  "dict_get [(''authority'', PStr ''https://test-ca'')] ''authority'' = Some (PStr ''https://test-ca'')
   \<and> update_config_value [] ''authority''
        ([[(''path'', PStr ''/etc/bundle.pem'')]] @ [(''authority'', PStr ''https://test-ca'')]
            # [[(''authority'', PStr ''https://other-ca'')]])
        [(''authority'', PStr ''https://global-ca'')] (PStr DEFAULT_AUTHORITY)
      = Inr (dict_set [] ''authority'' (PStr ''https://test-ca''))
   \<and> dict_get [(''authority'', PStr ''https://global-ca'')] ''authority'' = Some (PStr ''https://global-ca'')
   \<and> update_config_value [] ''authority'' [[(''path'', PStr ''/etc/bundle.pem'')]]
        [(''authority'', PStr ''https://global-ca'')] (PStr DEFAULT_AUTHORITY)
      = Inr (dict_set [] ''authority'' (PStr ''https://global-ca''))
   \<and> dict_get [] ''authority'' = None
   \<and> update_config_value [] ''authority'' [[(''path'', PStr ''/etc/bundle.pem'')]]
        [] (PStr DEFAULT_AUTHORITY)
      = Inr (dict_set [] ''authority'' (PStr DEFAULT_AUTHORITY))"
  using update_config_value_precedence
          [where before = "[[(''path'', PStr ''/etc/bundle.pem'')]]" and name = "''authority''"
             and x = "[(''authority'', PStr ''https://test-ca'')]" and v = "PStr ''https://test-ca''"
             and config = "[]" and later = "[[(''authority'', PStr ''https://other-ca'')]]"
             and globalconfig = "[(''authority'', PStr ''https://global-ca'')]"
             and dflt = "PStr DEFAULT_AUTHORITY" and localconfig = "[]"]
        update_config_value_precedence
          [where localconfig = "[[(''path'', PStr ''/etc/bundle.pem'')]]" and name = "''authority''"
             and v = "PStr ''https://global-ca''" and config = "[]"
             and globalconfig = "[(''authority'', PStr ''https://global-ca'')]"
             and dflt = "PStr DEFAULT_AUTHORITY"]
        update_config_value_precedence
          [where localconfig = "[[(''path'', PStr ''/etc/bundle.pem'')]]" and name = "''authority''"
             and config = "[]" and globalconfig = "[]" and dflt = "PStr DEFAULT_AUTHORITY"]
  by (simp add: dict_get_def dict_contains_def)


subsection \<open>Resolving a domain-group entry\<close>

text \<open>What evaluates \<^verbatim>\<open>parse_config_entry\<close> on the examples.\<close>

lemmas config_eval =
  parse_config_entry_def config_scalars_def config_ca_def idna_convert_def
  update_config_value_def complete_action_config_def handler_config_def config_handlers_def
  bindE_Inl bindE_Inr dict_getitem_def dict_get_default_def dict_set_def dict_get_def
  dict_contains_def dict_update_def non_ascii_def os_path_join_def resolved_def
  example_env_def example_runtimeconfig_def buecher_de_def
  DEFAULT_API_def DEFAULT_AUTHORITY_def DEFAULT_TTL_def DEFAULT_KEY_LENGTH_def

lemma parse_config_entry_Inr:
  "parse_config_entry env entry globalconfig runtimeconfig = Inr config \<longleftrightarrow>
     (\<exists>tr c1 c2 lc.
        idna_convert env (py_split CHR '' '' (fst entry)) = Inr tr
      \<and> config_scalars env (snd entry) globalconfig runtimeconfig (md5_hexdigest (fst entry))
            [(''domains'', PStr (if tr \<noteq> [] then py_join '' '' (map snd tr) else fst entry)),
             (''domainlist'', PList (map PStr (if tr \<noteq> [] then map snd tr
                                               else py_split CHR '' '' (fst entry)))),
             (''id'', PStr (md5_hexdigest (fst entry))),
             (''domaintranslation'', PDict (map (\<lambda>kv. (fst kv, PStr (snd kv))) tr))] = Inr c1
      \<and> config_ca entry (md5_hexdigest (fst entry)) globalconfig c1 = Inr c2
      \<and> complete_actions (snd entry) c2 = Inr lc
      \<and> config = dict_set
                    (dict_set c2 ''actions''
                       (PList (map PDict (filter (\<lambda>x. dict_contains x ''path'') lc))))
                    ''handlers''
                    (PDict (config_handlers
                              (if tr \<noteq> [] then map snd tr else py_split CHR '' '' (fst entry))
                              tr lc globalconfig)))"
  by (auto simp: parse_config_entry_def bindE_eq_Inr Let_def)

lemma update_config_value_Inr:
  "update_config_value config name localconfig globalconfig dflt = Inr config'
     \<Longrightarrow> \<exists>v. config' = dict_set config name v"
  using update_config_value_total [of config name localconfig globalconfig dflt] by auto

lemma config_scalars_frame:
  assumes "config_scalars env localconfig globalconfig runtimeconfig ident config0 = Inr config"
    and "k \<notin> set [''defaults'', ''api'', ''authority'', ''authority_tos_agreement'',
                   ''authority_contact_email'', ''account_key'', ''cert_dir'', ''ttl_days'',
                   ''cert_revoke_superseded'', ''csr_static'', ''csr_file'', ''cert_file'',
                   ''key_file'', ''key_length'']"
  shows "dict_get config k = dict_get config0 k"
  using assms
  by (auto simp: config_scalars_def bindE_eq_Inr dict_get_set dest!: update_config_value_Inr)

lemma config_ca_frame:
  assumes "config_ca entry ident globalconfig config0 = Inr config"
    and "k \<noteq> ''static_ca''" "k \<noteq> ''ca_file''"
  shows "dict_get config k = dict_get config0 k"
  using assms
  by (auto simp: config_ca_def bindE_eq_Inr dict_get_set split: list.splits if_splits)

lemma parse_config_entry_id:
  assumes "parse_config_entry env entry globalconfig runtimeconfig = Inr config"
  shows "dict_get config ''id'' = Some (PStr (md5_hexdigest (fst entry)))"
proof -
  from assms obtain tr c1 c2 lc where
    c1: "config_scalars env (snd entry) globalconfig runtimeconfig (md5_hexdigest (fst entry))
            [(''domains'', PStr (if tr \<noteq> [] then py_join '' '' (map snd tr) else fst entry)),
             (''domainlist'', PList (map PStr (if tr \<noteq> [] then map snd tr
                                               else py_split CHR '' '' (fst entry)))),
             (''id'', PStr (md5_hexdigest (fst entry))),
             (''domaintranslation'', PDict (map (\<lambda>kv. (fst kv, PStr (snd kv))) tr))] = Inr c1"
    and c2: "config_ca entry (md5_hexdigest (fst entry)) globalconfig c1 = Inr c2"
    and config: "config = dict_set
                    (dict_set c2 ''actions''
                       (PList (map PDict (filter (\<lambda>x. dict_contains x ''path'') lc))))
                    ''handlers''
                    (PDict (config_handlers
                              (if tr \<noteq> [] then map snd tr else py_split CHR '' '' (fst entry))
                              tr lc globalconfig))"
    unfolding parse_config_entry_Inr by blast
  have "dict_get config ''id'' = dict_get c2 ''id''"
    by (simp add: config dict_get_set)
  also have "\<dots> = dict_get c1 ''id''"
    using config_ca_frame [OF c2] by simp
  also have "\<dots> = Some (PStr (md5_hexdigest (fst entry)))"
    using config_scalars_frame [OF c1, of "''id''"] by (simp add: dict_get_def)
  finally show ?thesis .
qed

text \<open>
  Claim C1, as amended. The \<^verbatim>\<open>id\<close> of a resolved entry is the MD5 digest, in hexadecimal,
  of the \<^verbatim>\<open>domains\<close> key as it stands in the file: two entries with the same key string
  resolve to the same \<^verbatim>\<open>id\<close>, whatever their override documents, the global and the
  runtime configuration and the environment are.
\<close>

theorem id_is_md5_of_key:
  assumes "parse_config_entry env (key, localconfig) globalconfig runtimeconfig = Inr config"
    and "parse_config_entry env' (key, localconfig') globalconfig' runtimeconfig' = Inr config'"
  shows "dict_get config ''id'' = Some (PStr (md5_hexdigest key))
       \<and> dict_get config' ''id'' = dict_get config ''id''"
  using parse_config_entry_id [OF assms(1)] parse_config_entry_id [OF assms(2)] by simp

text \<open>The entry \<^verbatim>\<open>"example.com": []\<close> under an empty global configuration.\<close>

lemma example_com_resolved:
  "parse_config_entry example_env (''example.com'', []) [] example_runtimeconfig
     = Inr example_com_config"
  by (simp add: config_eval example_com_config_def md5_example_com cong: bindE_cong_weak)

lemma example_com_resolved_again:
  "parse_config_entry example_env (''example.com'', [[(''authority'', PStr ''https://test-ca'')]])
       [(''ttl_days'', PInt 30)] example_runtimeconfig
     = Inr (dict_set (dict_set example_com_config ''authority'' (PStr ''https://test-ca''))
            ''handlers'' (PDict [(''example.com'', PDict [(''ttl_days'', PInt 30)])]))"
  by (simp add: config_eval example_com_config_def md5_example_com cong: bindE_cong_weak)

theorem id_is_md5_of_key_witness:
  "parse_config_entry example_env (''example.com'', []) [] example_runtimeconfig
     = Inr example_com_config
   \<and> parse_config_entry example_env (''example.com'', [[(''authority'', PStr ''https://test-ca'')]])
       [(''ttl_days'', PInt 30)] example_runtimeconfig
     = Inr (dict_set (dict_set example_com_config ''authority'' (PStr ''https://test-ca''))
            ''handlers'' (PDict [(''example.com'', PDict [(''ttl_days'', PInt 30)])]))
   \<and> dict_get example_com_config ''id'' = Some (PStr (md5_hexdigest ''example.com''))
   \<and> dict_get (dict_set (dict_set example_com_config ''authority'' (PStr ''https://test-ca''))
                ''handlers'' (PDict [(''example.com'', PDict [(''ttl_days'', PInt 30)])])) ''id''
       = dict_get example_com_config ''id''"
  using id_is_md5_of_key [OF example_com_resolved example_com_resolved_again]
        example_com_resolved example_com_resolved_again
  by simp


text \<open>
  Claim C1 as stated fails: the code does not sort the domains of the key. The keys
  \<^verbatim>\<open>a.com b.com\<close> and \<^verbatim>\<open>b.com a.com\<close> name the same set of domains and resolve to
  different \<^verbatim>\<open>id\<close>s.
\<close>

theorem id_depends_on_order:
  "set (py_split CHR '' '' ''a.com b.com'') = set (py_split CHR '' '' ''b.com a.com'')
   \<and> resolved (parse_config_entry example_env (''a.com b.com'', []) [] example_runtimeconfig) ''id''
       = Some (PStr ''480543b3008926cc9aa49d74fcc4b227'')
   \<and> resolved (parse_config_entry example_env (''b.com a.com'', []) [] example_runtimeconfig) ''id''
       = Some (PStr ''d34d225ebb1592ff4bb036dd3dc94a79'')"
  by (simp add: config_eval md5_a_b md5_b_a insert_commute cong: bindE_cong_weak)

text \<open>
  Claim C3 at its failing input: the group \<^verbatim>\<open>example.com\<close> with the one override document
  \<^verbatim>\<open>{"ca_file": "/etc/ssl/ca.pem"}\<close> and an empty global configuration resolves to
  \<^verbatim>\<open>static_ca\<close> false and the derived path: line 155 looks for \<^verbatim>\<open>ca_file\<close> in the two
  components of \<^verbatim>\<open>entry\<close>, not in the override documents.
\<close>

theorem ca_file_override_ignored:
  "resolved (parse_config_entry example_env
               (''example.com'', [[(''ca_file'', PStr ''/etc/ssl/ca.pem'')]])
               [] example_runtimeconfig) ''static_ca'' = Some (PBool False)
   \<and> resolved (parse_config_entry example_env
               (''example.com'', [[(''ca_file'', PStr ''/etc/ssl/ca.pem'')]])
               [] example_runtimeconfig) ''ca_file''
       = Some (PStr ''/etc/acertmgr/5ababd603b22780302dd8d83498e5172.ca'')"
  by (simp add: config_eval md5_example_com cong: bindE_cong_weak)

text \<open>
  Claim C4 at its failing input: for the key \<^verbatim>\<open>example.com b\<uuml>cher.de\<close> line 96 makes
  \<^verbatim>\<open>domainlist\<close> the values of the translation mapping, which are the original names of
  the translated domains: the ASCII domain is gone and the other one is not in its ASCII
  form.
\<close>

theorem idna_domainlist_keeps_originals:
  "resolved (parse_config_entry example_env (''example.com '' @ buecher_de, [])
               [] example_runtimeconfig) ''domainlist'' = Some (PList [PStr buecher_de])
   \<and> resolved (parse_config_entry example_env (''example.com '' @ buecher_de, [])
               [] example_runtimeconfig) ''domaintranslation''
       = Some (PDict [(''xn--bcher-kva.de'', PStr buecher_de)])
   \<and> resolved (parse_config_entry example_env (''example.com '' @ buecher_de, [])
               [] example_runtimeconfig) ''domains'' = Some (PStr buecher_de)"
  by (simp add: config_eval Let_def cong: bindE_cong_weak)


end
